theory Spec2Isabelle
  imports Main "HOL-Library.Word"
begin

section \<open>JavaScript strings\<close>

text \<open>
  A JavaScript string is a sequence of UTF-16 code units and \<open>s.length\<close> is the number
  of code units. String literals of the source are written with \<open>js\<close>.
\<close>

type_synonym code_unit = "16 word"
type_synonym jsstring = "code_unit list"

definition js :: "string \<Rightarrow> jsstring" where
  "js s = map (\<lambda>c. of_nat (of_char c)) s"

text \<open>
  \<open>String.prototype.trim\<close> strips WhiteSpace and LineTerminator code points from both
  ends (ECMAScript: TAB, LF, VT, FF, CR, SP, NBSP, U+1680, U+2000..U+200A, U+2028, U+2029,
  U+202F, U+205F, U+3000, U+FEFF).
\<close>

definition isWhiteSpace :: "code_unit \<Rightarrow> bool" where
  "isWhiteSpace c \<longleftrightarrow>
     c = 0x9 \<or> c = 0xA \<or> c = 0xB \<or> c = 0xC \<or> c = 0xD \<or> c = 0x20 \<or> c = 0xA0 \<or>
     c = 0x1680 \<or> (0x2000 \<le> c \<and> c \<le> 0x200A) \<or> c = 0x2028 \<or> c = 0x2029 \<or>
     c = 0x202F \<or> c = 0x205F \<or> c = 0x3000 \<or> c = 0xFEFF"

definition trim :: "jsstring \<Rightarrow> jsstring" where
  "trim s = rev (dropWhile isWhiteSpace (rev (dropWhile isWhiteSpace s)))"

section \<open>StateDemo\<close>

text \<open>
  The component state is the tuple of its \<open>useState\<close> cells. Numbers are the integers
  the handlers produce (exact in a double below \<open>2^53\<close>). \<open>Date.now()\<close> is an input of
  the handler that reads it. Every handler is applied to the state of the render it was
  created in, which is the current state when one event is handled per render. What the
  handlers print to the console is not part of the state.
\<close>

record sd_user =
  sd_name :: jsstring
  sd_age :: int
  sd_email :: jsstring

record todo =
  todo_id :: int
  todo_text :: jsstring
  completed :: bool

record state_demo =
  count :: int
  text_value :: jsstring
  isOn :: bool
  user :: sd_user
  todos :: "todo list"
  newTodo :: jsstring
  bgColor :: jsstring
  textColor :: jsstring

definition sd_init :: state_demo where
  "sd_init = \<lparr>
     count = 0,
     text_value = [],
     isOn = False,
     user = \<lparr>sd_name = js ''John Doe'', sd_age = 25, sd_email = js ''john@example.com''\<rparr>,
     todos = [\<lparr>todo_id = 1, todo_text = js ''Learn React'', completed = True\<rparr>,
              \<lparr>todo_id = 2, todo_text = js ''Master State'', completed = False\<rparr>],
     newTodo = [],
     bgColor = js ''#e3f2fd'',
     textColor = js ''#1976d2''\<rparr>"

definition incrementCount :: "state_demo \<Rightarrow> state_demo" where
  "incrementCount s = s\<lparr>count := count s + 1\<rparr>"

definition decrementCount :: "state_demo \<Rightarrow> state_demo" where
  "decrementCount s = s\<lparr>count := count s - 1\<rparr>"

definition resetCount :: "state_demo \<Rightarrow> state_demo" where
  "resetCount s = s\<lparr>count := 0\<rparr>"

definition incrementByTen :: "state_demo \<Rightarrow> state_demo" where
  "incrementByTen s = s\<lparr>count := count s + 10\<rparr>"

definition handleTextChange :: "jsstring \<Rightarrow> state_demo \<Rightarrow> state_demo" where
  "handleTextChange v s = s\<lparr>text_value := v\<rparr>"

definition toggleSwitch :: "state_demo \<Rightarrow> state_demo" where
  "toggleSwitch s = s\<lparr>isOn := \<not> isOn s\<rparr>"

definition updateUserName :: "jsstring \<Rightarrow> state_demo \<Rightarrow> state_demo" where
  "updateUserName newName s = s\<lparr>user := (user s)\<lparr>sd_name := newName\<rparr>\<rparr>"

definition updateUserAge :: "state_demo \<Rightarrow> state_demo" where
  "updateUserAge s = s\<lparr>user := (user s)\<lparr>sd_age := sd_age (user s) + 1\<rparr>\<rparr>"

definition setNewTodo :: "jsstring \<Rightarrow> state_demo \<Rightarrow> state_demo" where
  "setNewTodo v s = s\<lparr>newTodo := v\<rparr>"

definition addTodo :: "int \<Rightarrow> state_demo \<Rightarrow> state_demo" where
  "addTodo now s =
     (if trim (newTodo s) = [] then s
      else s\<lparr>todos := todos s @ [\<lparr>todo_id = now, todo_text = newTodo s, completed = False\<rparr>],
             newTodo := []\<rparr>)"

definition toggleTodo :: "int \<Rightarrow> state_demo \<Rightarrow> state_demo" where
  "toggleTodo i s =
     s\<lparr>todos := map (\<lambda>t. if todo_id t = i then t\<lparr>completed := \<not> completed t\<rparr> else t)
                      (todos s)\<rparr>"

definition deleteTodo :: "int \<Rightarrow> state_demo \<Rightarrow> state_demo" where
  "deleteTodo i s = s\<lparr>todos := filter (\<lambda>t. todo_id t \<noteq> i) (todos s)\<rparr>"

text \<open>The events of the component, one per handler, and the run of a list of events.\<close>

datatype sd_event =
    IncrementCount
  | DecrementCount
  | ResetCount
  | IncrementByTen
  | HandleTextChange jsstring
  | ToggleSwitch
  | UpdateUserName jsstring
  | UpdateUserAge
  | SetNewTodo jsstring
  | AddTodo int
  | ToggleTodo int
  | DeleteTodo int

fun sd_step :: "state_demo \<Rightarrow> sd_event \<Rightarrow> state_demo" where
  "sd_step s IncrementCount = incrementCount s"
| "sd_step s DecrementCount = decrementCount s"
| "sd_step s ResetCount = resetCount s"
| "sd_step s IncrementByTen = incrementByTen s"
| "sd_step s (HandleTextChange v) = handleTextChange v s"
| "sd_step s ToggleSwitch = toggleSwitch s"
| "sd_step s (UpdateUserName v) = updateUserName v s"
| "sd_step s UpdateUserAge = updateUserAge s"
| "sd_step s (SetNewTodo v) = setNewTodo v s"
| "sd_step s (AddTodo now) = addTodo now s"
| "sd_step s (ToggleTodo i) = toggleTodo i s"
| "sd_step s (DeleteTodo i) = deleteTodo i s"

definition sd_run :: "sd_event list \<Rightarrow> state_demo \<Rightarrow> state_demo" where
  "sd_run evs s = foldl sd_step s evs"

text \<open>
  What the text panel shows: \<open>{text || '(nothing yet)'}\<close> and \<open>{text.length}\<close>.
\<close>

definition shown_text :: "state_demo \<Rightarrow> jsstring" where
  "shown_text s = (if text_value s = [] then js ''(nothing yet)'' else text_value s)"

definition shown_character_count :: "state_demo \<Rightarrow> nat" where
  "shown_character_count s = length (text_value s)"

definition shown_count :: "state_demo \<Rightarrow> int" where
  "shown_count s = count s"

section \<open>CommonPatternsExample\<close>

record cp_todo =
  cp_id :: int
  cp_text :: jsstring
  cp_done :: bool

record common_patterns =
  cp_todos :: "cp_todo list"
  cp_input :: jsstring

definition cp_init :: common_patterns where
  "cp_init = \<lparr>cp_todos = [], cp_input = []\<rparr>"

text \<open>\<open>if (input.trim())\<close>: a string is truthy when it is not empty.\<close>

definition cp_addTodo :: "int \<Rightarrow> common_patterns \<Rightarrow> common_patterns" where
  "cp_addTodo now s =
     (if trim (cp_input s) \<noteq> []
      then s\<lparr>cp_todos := cp_todos s @ [\<lparr>cp_id = now, cp_text = cp_input s, cp_done = False\<rparr>],
             cp_input := []\<rparr>
      else s)"

definition cp_toggleTodo :: "int \<Rightarrow> common_patterns \<Rightarrow> common_patterns" where
  "cp_toggleTodo i s =
     s\<lparr>cp_todos := map (\<lambda>t. if cp_id t = i then t\<lparr>cp_done := \<not> cp_done t\<rparr> else t)
                         (cp_todos s)\<rparr>"

definition cp_deleteTodo :: "int \<Rightarrow> common_patterns \<Rightarrow> common_patterns" where
  "cp_deleteTodo i s = s\<lparr>cp_todos := filter (\<lambda>t. cp_id t \<noteq> i) (cp_todos s)\<rparr>"

section \<open>KeyDemo\<close>

text \<open>
  The state is the list of items. \<open>addItem\<close> reads \<open>Date.now()\<close> and
  \<open>Math.random() * 360\<close>; both are inputs here, the second one already converted to the
  string the template literal interpolates.
\<close>

record item =
  item_id :: int
  item_text :: jsstring
  color :: jsstring

definition kd_init :: "item list" where
  "kd_init = [\<lparr>item_id = 1, item_text = js ''Item 1'', color = js ''#e3f2fd''\<rparr>,
              \<lparr>item_id = 2, item_text = js ''Item 2'', color = js ''#f3e5f5''\<rparr>,
              \<lparr>item_id = 3, item_text = js ''Item 3'', color = js ''#e8f5e9''\<rparr>]"

fun number_to_string :: "nat \<Rightarrow> jsstring" where
  "number_to_string n =
     (if n < 10 then [of_nat (48 + n)]
      else number_to_string (n div 10) @ [of_nat (48 + n mod 10)])"

declare number_to_string.simps [simp del]

definition addItem :: "int \<Rightarrow> jsstring \<Rightarrow> item list \<Rightarrow> item list" where
  "addItem now hue items =
     items @ [\<lparr>item_id = now,
               item_text = js ''Item '' @ number_to_string (length items + 1),
               color = js ''hsl('' @ hue @ js '', 70%, 85%)''\<rparr>]"

definition removeItem :: "int \<Rightarrow> item list \<Rightarrow> item list" where
  "removeItem i items = filter (\<lambda>it. item_id it \<noteq> i) items"

section \<open>ComplexObjectStateExample\<close>

record address =
  street :: jsstring
  city :: jsstring
  zipCode :: jsstring

record preferences =
  theme :: jsstring
  notifications :: bool

record co_user =
  co_name :: jsstring
  co_email :: jsstring
  co_address :: address
  co_preferences :: preferences

definition co_init :: co_user where
  "co_init = \<lparr>
     co_name = js ''John Doe'',
     co_email = js ''john@example.com'',
     co_address = \<lparr>street = js ''123 Main St'', city = js ''New York'', zipCode = js ''10001''\<rparr>,
     co_preferences = \<lparr>theme = js ''light'', notifications = True\<rparr>\<rparr>"

definition updateName :: "jsstring \<Rightarrow> co_user \<Rightarrow> co_user" where
  "updateName v u = u\<lparr>co_name := v\<rparr>"

definition updateCity :: "jsstring \<Rightarrow> co_user \<Rightarrow> co_user" where
  "updateCity v u = u\<lparr>co_address := (co_address u)\<lparr>city := v\<rparr>\<rparr>"

definition toggleNotifications :: "co_user \<Rightarrow> co_user" where
  "toggleNotifications u =
     u\<lparr>co_preferences := (co_preferences u)\<lparr>notifications := \<not> notifications (co_preferences u)\<rparr>\<rparr>"

section \<open>TimerExample\<close>

text \<open>
  Besides the two state cells and the ref, the state carries the part of the browser the
  handlers act on: the set of interval handles of this component that are still
  scheduled, and the counter from which \<open>setInterval\<close> draws the next handle.
  \<open>clearInterval\<close> of \<open>null\<close> or of a handle that is not scheduled does nothing.

  \<open>isRunning\<close> is the value last given to \<open>setIsRunning\<close>. A handler does not read it:
  \<open>startTimer\<close> tests the \<open>isRunning\<close> that the render which created the handler
  captured, kept here as \<open>rendered_isRunning\<close>. A render refreshes the captured value;
  events handled between two renders all see the same one. The ref is a mutable cell
  and is always read and written as it is at that moment.
\<close>

record timer_state =
  seconds :: int
  isRunning :: bool
  intervalRef :: "nat option"
  active :: "nat set"
  next_handle :: nat
  rendered_isRunning :: bool

definition timer_init :: timer_state where
  "timer_init = \<lparr>seconds = 0, isRunning = False, intervalRef = None, active = {},
                  next_handle = 1, rendered_isRunning = False\<rparr>"

definition clearInterval :: "nat option \<Rightarrow> timer_state \<Rightarrow> timer_state" where
  "clearInterval r s = (case r of None \<Rightarrow> s | Some h \<Rightarrow> s\<lparr>active := active s - {h}\<rparr>)"

definition startTimer :: "timer_state \<Rightarrow> timer_state" where
  "startTimer s =
     (if \<not> rendered_isRunning s
      then s\<lparr>isRunning := True,
             intervalRef := Some (next_handle s),
             active := insert (next_handle s) (active s),
             next_handle := next_handle s + 1\<rparr>
      else s)"

definition stopTimer :: "timer_state \<Rightarrow> timer_state" where
  "stopTimer s = clearInterval (intervalRef s) (s\<lparr>isRunning := False\<rparr>)"

definition resetTimer :: "timer_state \<Rightarrow> timer_state" where
  "resetTimer s = (stopTimer s)\<lparr>seconds := 0\<rparr>"

text \<open>The interval callback \<open>setSeconds(s => s + 1)\<close> fires only for a scheduled handle.\<close>

definition tick :: "nat \<Rightarrow> timer_state \<Rightarrow> timer_state" where
  "tick h s = (if h \<in> active s then s\<lparr>seconds := seconds s + 1\<rparr> else s)"

text \<open>A render creates the handlers anew, over the state as it is then.\<close>

definition timer_render :: "timer_state \<Rightarrow> timer_state" where
  "timer_render s = s\<lparr>rendered_isRunning := isRunning s\<rparr>"

text \<open>
  The cleanup of the mount effect: \<open>if (intervalRef.current) clearInterval(...)\<close>. A
  handle is a positive number, so the guard fails only on \<open>null\<close>.
\<close>

definition timer_unmount :: "timer_state \<Rightarrow> timer_state" where
  "timer_unmount s = (if intervalRef s \<noteq> None then clearInterval (intervalRef s) s else s)"

datatype timer_event = StartTimer | StopTimer | ResetTimer | Tick nat | Render

fun timer_step :: "timer_state \<Rightarrow> timer_event \<Rightarrow> timer_state" where
  "timer_step s StartTimer = startTimer s"
| "timer_step s StopTimer = stopTimer s"
| "timer_step s ResetTimer = resetTimer s"
| "timer_step s (Tick h) = tick h s"
| "timer_step s Render = timer_render s"

definition timer_run :: "timer_event list \<Rightarrow> timer_state \<Rightarrow> timer_state" where
  "timer_run evs s = foldl timer_step s evs"

text \<open>A run in which the component renders after every event.\<close>

definition timer_run_rendered :: "timer_event list \<Rightarrow> timer_state \<Rightarrow> timer_state" where
  "timer_run_rendered evs s = foldl (\<lambda>s e. timer_render (timer_step s e)) s evs"

text \<open>
  The handlers on screen are those of the current state, and the scheduled intervals are
  the one the ref names while running and none otherwise.
\<close>

definition single_interval :: "timer_state \<Rightarrow> bool" where
  "single_interval s \<longleftrightarrow>
     rendered_isRunning s = isRunning s \<and>
     active s = (if isRunning s then (case intervalRef s of None \<Rightarrow> {} | Some h \<Rightarrow> {h}) else {}) \<and>
     (isRunning s \<longrightarrow> intervalRef s \<noteq> None)"

section \<open>DataFetchingEffect\<close>

text \<open>
  A settled promise is a sum: \<open>Inl\<close> a rejection, \<open>Inr\<close> a value. \<open>then\<close> runs its
  callback on a value and passes a rejection on; \<open>catch\<close> runs its callback on a
  rejection. A callback that throws rejects the promise it feeds.
\<close>

datatype js_error = FetchFailed | JsonSyntaxError | NullPropertyRead

datatype 'n json =
    JNull
  | JBool bool
  | JNum 'n
  | JStr jsstring
  | JArr "'n json list"
  | JObj "(jsstring \<times> 'n json) list"

text \<open>
  What \<open>fetch\<close> resolves to: the status, which the component never reads, and what
  \<open>response.json()\<close> will settle to for the body received.
\<close>

datatype 'n response = Response (status: nat) (json_result: "js_error + 'n json")

datatype uid = UidNumber int | UidText jsstring

datatype 'n log_entry =
    LogFetching uid
  | LogFetched "'n json option"
  | LogError js_error

record 'n fetch_state =
  fs_user :: "'n json"
  loading :: bool
  userId :: uid
  console :: "'n log_entry list"

definition fetch_init :: "'n fetch_state" where
  "fetch_init = \<lparr>fs_user = JNull, loading = False, userId = UidNumber 1, console = []\<rparr>"

definition promise_then :: "js_error + 'a \<Rightarrow> ('a \<Rightarrow> js_error + 'b) \<Rightarrow> js_error + 'b" where
  "promise_then p f = (case p of Inl e \<Rightarrow> Inl e | Inr v \<Rightarrow> f v)"

definition promise_catch :: "js_error + 'a \<Rightarrow> (js_error \<Rightarrow> 'a) \<Rightarrow> 'a" where
  "promise_catch p f = (case p of Inl e \<Rightarrow> f e | Inr v \<Rightarrow> v)"

text \<open>
  \<open>data.name\<close>: reading a property of \<open>null\<close> throws; an object yields its last entry
  for the key, or \<open>undefined\<close> (\<open>None\<close>); every other value yields \<open>undefined\<close>.
\<close>

definition get_name :: "'n json \<Rightarrow> js_error + 'n json option" where
  "get_name d =
     (case d of
        JNull \<Rightarrow> Inl NullPropertyRead
      | JObj kvs \<Rightarrow> Inr (map_of (rev kvs) (js ''name''))
      | _ \<Rightarrow> Inr None)"

definition setUserId :: "jsstring \<Rightarrow> 'n fetch_state \<Rightarrow> 'n fetch_state" where
  "setUserId v s = s\<lparr>userId := UidText v\<rparr>"

text \<open>The synchronous part of the effect, up to the call of \<open>fetch\<close>.\<close>

definition fetch_effect :: "'n fetch_state \<Rightarrow> 'n fetch_state" where
  "fetch_effect s = s\<lparr>console := console s @ [LogFetching (userId s)], loading := True\<rparr>"

text \<open>The second \<open>then\<close> callback: \<open>data.name\<close> is evaluated before anything is set.\<close>

definition on_data :: "'n json \<Rightarrow> 'n fetch_state \<Rightarrow> js_error + 'n fetch_state" where
  "on_data d s =
     (case get_name d of
        Inl e \<Rightarrow> Inl e
      | Inr nm \<Rightarrow> Inr (s\<lparr>console := console s @ [LogFetched nm], fs_user := d, loading := False\<rparr>))"

definition on_error :: "js_error \<Rightarrow> 'n fetch_state \<Rightarrow> 'n fetch_state" where
  "on_error e s = s\<lparr>console := console s @ [LogError e], loading := False\<rparr>"

text \<open>
  The promise chain, run on what \<open>fetch\<close> settled to and on the state current at that
  moment.
\<close>

definition fetch_chain :: "js_error + 'n response \<Rightarrow> 'n fetch_state \<Rightarrow> js_error + 'n fetch_state" where
  "fetch_chain p s = promise_then (promise_then p (\<lambda>r. json_result r)) (\<lambda>d. on_data d s)"

definition fetch_settle :: "js_error + 'n response \<Rightarrow> 'n fetch_state \<Rightarrow> 'n fetch_state" where
  "fetch_settle p s = promise_catch (fetch_chain p s) (\<lambda>e. on_error e s)"

text \<open>
  The failing and invalid outcomes: \<open>fetch\<close> rejects, the body is not JSON, or the
  body is the JSON value \<open>null\<close>.
\<close>

definition fetch_fails :: "js_error + 'n response \<Rightarrow> bool" where
  "fetch_fails p \<longleftrightarrow>
     (case p of
        Inl e \<Rightarrow> True
      | Inr r \<Rightarrow> (case json_result r of Inl e \<Rightarrow> True | Inr d \<Rightarrow> d = JNull))"

section \<open>Auxiliary facts\<close>

lemma dropWhile_all_iff: "(\<forall>x\<in>set (dropWhile P xs). P x) \<longleftrightarrow> (\<forall>x\<in>set xs. P x)"
  by (induction xs) auto

lemma trim_empty_iff: "trim s = [] \<longleftrightarrow> (\<forall>c\<in>set s. isWhiteSpace c)"
  by (simp add: trim_def dropWhile_all_iff)

lemma sd_run_snoc: "sd_run (evs @ [e]) s = sd_step (sd_run evs s) e"
  by (simp add: sd_run_def)

subsection \<open>The promise chain of DataFetchingEffect\<close>

text \<open>The \<open>catch\<close> callback runs exactly on the failing and invalid outcomes.\<close>

lemma fetch_fails_iff_chain_rejects: "fetch_fails p \<longleftrightarrow> (\<exists>e. fetch_chain p s = Inl e)"
  by (auto simp: fetch_fails_def fetch_chain_def promise_then_def on_data_def get_name_def
      split: sum.splits json.splits)

lemma fetch_settle_on_failure: "fetch_fails p \<Longrightarrow> \<exists>e. fetch_settle p s = on_error e s"
  by (auto simp: fetch_fails_def fetch_settle_def fetch_chain_def promise_then_def
      promise_catch_def on_data_def get_name_def split: sum.splits json.splits)

lemma loading_fetch_settle: "\<not> loading (fetch_settle p s)"
  by (auto simp: fetch_settle_def fetch_chain_def promise_then_def promise_catch_def
      on_data_def on_error_def split: sum.splits)

text \<open>
  The status is not read: an HTTP error whose body is a JSON value other than \<open>null\<close>
  takes the success path and replaces the user.
\<close>

lemma fetch_settle_ignores_status:
  "fetch_settle (Inr (Response 404 (Inr (JObj [])))) s =
     s\<lparr>console := console s @ [LogFetched None], fs_user := JObj [], loading := False\<rparr>"
  by (simp add: fetch_settle_def fetch_chain_def promise_then_def promise_catch_def
      on_data_def get_name_def)

subsection \<open>The interval of TimerExample\<close>

text \<open>
  What holds of the timer when the component renders after every event: the guard of
  \<open>startTimer\<close> then tests the current value, and one interval at most is scheduled.
\<close>

lemma startTimer_rendered_running_noop: "rendered_isRunning s \<Longrightarrow> startTimer s = s"
  by (simp add: startTimer_def)

lemma timer_step_render_keeps_single_interval:
  "single_interval s \<Longrightarrow> single_interval (timer_render (timer_step s e))"
  by (cases e)
    (auto simp: single_interval_def timer_render_def startTimer_def stopTimer_def
      resetTimer_def tick_def clearInterval_def split: if_splits option.splits)

lemma timer_run_rendered_snoc:
  "timer_run_rendered (evs @ [e]) s = timer_render (timer_step (timer_run_rendered evs s) e)"
  by (simp add: timer_run_rendered_def)

lemma timer_run_rendered_single_interval:
  "single_interval (timer_run_rendered evs timer_init)"
proof (induction evs rule: rev_induct)
  case Nil
  show ?case by (simp add: timer_run_rendered_def timer_init_def single_interval_def)
next
  case (snoc e evs)
  then show ?case
    unfolding timer_run_rendered_snoc by (rule timer_step_render_keeps_single_interval)
qed

lemma timer_run_rendered_card: "card (active (timer_run_rendered evs timer_init)) \<le> 1"
  using timer_run_rendered_single_interval [of evs]
  by (auto simp: single_interval_def split: option.splits)

lemma timer_unmount_clears: "active (timer_unmount (timer_run_rendered evs timer_init)) = {}"
  using timer_run_rendered_single_interval [of evs]
  by (auto simp: single_interval_def timer_unmount_def clearInterval_def
      split: if_splits option.splits)

subsection \<open>Adding and removing list records\<close>

text \<open>
  What holds of the list handlers whatever the clock reads: an accepted add appends one
  record carrying the clock reading, and a removal keeps, in order, exactly the records
  with another identifier. Where the identifiers are distinct, a removal takes out one
  record.
\<close>

lemma addTodo_appends:
  "trim (newTodo s) \<noteq> [] \<Longrightarrow>
   todos (addTodo now s) =
     todos s @ [\<lparr>todo_id = now, todo_text = newTodo s, completed = False\<rparr>]"
  by (simp add: addTodo_def)

lemma addItem_length: "length (addItem now hue items) = length items + 1"
  by (simp add: addItem_def)

lemma filter_neq_removes_one:
  "distinct (map f xs) \<Longrightarrow> x \<in> set xs \<Longrightarrow>
   \<exists>ys zs. xs = ys @ x # zs \<and> filter (\<lambda>y. f y \<noteq> f x) xs = ys @ zs"
proof (induction xs)
  case Nil
  then show ?case by simp
next
  case (Cons a xs)
  show ?case
  proof (cases "a = x")
    case True
    from Cons.prems(1) have "f a \<notin> f ` set xs" by simp
    then have "\<forall>y\<in>set xs. f y \<noteq> f a" by (metis imageI)
    then have "filter (\<lambda>y. f y \<noteq> f a) xs = xs" by (simp add: filter_id_conv)
    with True have "a # xs = [] @ x # xs \<and> filter (\<lambda>y. f y \<noteq> f x) (a # xs) = [] @ xs"
      by simp
    then show ?thesis by blast
  next
    case False
    with Cons.prems have "x \<in> set xs" and d: "distinct (map f xs)" and "f a \<noteq> f x"
      by auto
    with Cons.IH obtain ys zs where "xs = ys @ x # zs"
      and "filter (\<lambda>y. f y \<noteq> f x) xs = ys @ zs" by blast
    with \<open>f a \<noteq> f x\<close>
    have "a # xs = (a # ys) @ x # zs \<and> filter (\<lambda>y. f y \<noteq> f x) (a # xs) = (a # ys) @ zs"
      by simp
    then show ?thesis by blast
  qed
qed

lemma deleteTodo_distinct_removes_one:
  "distinct (map todo_id (todos s)) \<Longrightarrow> t \<in> set (todos s) \<Longrightarrow>
   \<exists>ys zs. todos s = ys @ t # zs \<and> todos (deleteTodo (todo_id t) s) = ys @ zs"
  using filter_neq_removes_one [of todo_id "todos s" t] by (simp add: deleteTodo_def)

lemma removeItem_distinct_removes_one:
  "distinct (map item_id items) \<Longrightarrow> it \<in> set items \<Longrightarrow>
   \<exists>ys zs. items = ys @ it # zs \<and> removeItem (item_id it) items = ys @ zs"
  using filter_neq_removes_one [of item_id items it] by (simp add: removeItem_def)

section \<open>The claims\<close>

text \<open>
  C1, as the specification states it: after a failing fetch the loading flag stays true.
  It is false already for the first fetch of the component: the effect sets the flag,
  \<open>fetch\<close> rejects, and the \<open>catch\<close> callback clears the flag.
\<close>

theorem fetch_failure_loading_stays_true_counterexample:
  "loading (fetch_effect (fetch_init :: nat fetch_state)) \<and>
   \<not> loading (fetch_settle (Inl FetchFailed) (fetch_effect (fetch_init :: nat fetch_state)))"
  by (simp add: fetch_effect_def fetch_init_def fetch_settle_def fetch_chain_def
      promise_then_def promise_catch_def on_error_def)

text \<open>
  C1, amended: when the fetch fails (\<open>fetch\<close> rejects, the body is not JSON, or the body
  is \<open>null\<close>), the failure is caught and written to the console only, no other state is
  touched, so the user is shown no error, and the loading flag is cleared: the state
  after the failure is the state before it with one error entry appended to the
  console and \<open>loading\<close> set to false.
\<close>

theorem fetch_failure_logged_loading_cleared:
  "fetch_fails p \<Longrightarrow>
   \<exists>e. fetch_settle p s = s\<lparr>console := console s @ [LogError e], loading := False\<rparr>"
  using fetch_settle_on_failure [of p s] by (simp add: on_error_def)

theorem fetch_failure_logged_loading_cleared_witness:
  "fetch_fails (Inl FetchFailed :: js_error + nat response) \<and>
   (\<exists>e. fetch_settle (Inl FetchFailed) (fetch_effect (fetch_init :: nat fetch_state)) =
      (fetch_effect fetch_init)
        \<lparr>console := console (fetch_effect fetch_init) @ [LogError e], loading := False\<rparr>)"
proof -
  have h: "fetch_fails (Inl FetchFailed :: js_error + nat response)"
    by (simp add: fetch_fails_def)
  show ?thesis
    using h fetch_failure_logged_loading_cleared [OF h, of "fetch_effect fetch_init"]
    by simp
qed

text \<open>
  C2, as the specification states it: every failing or invalid response leaves the user
  value as it was. It is false for a response with an error status and a JSON body:
  the status is never read, the body \<open>{}\<close> of a 404 takes the success path and
  replaces the user fetched before.
\<close>

theorem fetch_error_status_replaces_user_counterexample:
  "fs_user (fetch_effect (fetch_settle
      (Inr (Response 200 (Inr (JObj [(js ''name'', JStr (js ''Ann''))]))))
      (fetch_effect (fetch_init :: nat fetch_state)))) =
     JObj [(js ''name'', JStr (js ''Ann''))] \<and>
   fs_user (fetch_settle (Inr (Response 404 (Inr (JObj []))))
     (fetch_effect (fetch_settle
        (Inr (Response 200 (Inr (JObj [(js ''name'', JStr (js ''Ann''))]))))
        (fetch_effect (fetch_init :: nat fetch_state))))) = JObj []"
  by (simp add: fetch_effect_def fetch_init_def fetch_settle_def fetch_chain_def
      promise_then_def promise_catch_def on_data_def get_name_def)

text \<open>
  C2, amended: for every outcome of the fetch on which the error path runs (\<open>fetch\<close>
  rejects, the body is not JSON, or the body is \<open>null\<close>), the error path leaves the user
  value as it was; and the loading flag is false once the fetch has settled, whatever
  the outcome.
\<close>

theorem fetch_error_path_keeps_user_clears_loading:
  "\<not> loading (fetch_settle p s) \<and>
   (fetch_fails p \<longrightarrow> fs_user (fetch_settle p s) = fs_user s)"
proof
  show "\<not> loading (fetch_settle p s)" by (rule loading_fetch_settle)
next
  show "fetch_fails p \<longrightarrow> fs_user (fetch_settle p s) = fs_user s"
  proof
    assume "fetch_fails p"
    then obtain e where "fetch_settle p s = on_error e s"
      using fetch_settle_on_failure by blast
    then show "fs_user (fetch_settle p s) = fs_user s" by (simp add: on_error_def)
  qed
qed

theorem fetch_error_path_keeps_user_clears_loading_witness:
  "fetch_fails (Inr (Response 200 (Inr JNull)) :: js_error + nat response) \<and>
   \<not> loading (fetch_settle (Inr (Response 200 (Inr JNull)))
       (fetch_effect (fetch_init\<lparr>fs_user := JStr (js ''Ann'') :: nat json\<rparr>))) \<and>
   fs_user (fetch_settle (Inr (Response 200 (Inr JNull)))
       (fetch_effect (fetch_init\<lparr>fs_user := JStr (js ''Ann'') :: nat json\<rparr>))) = JStr (js ''Ann'')"
proof -
  have h: "fetch_fails (Inr (Response 200 (Inr JNull)) :: js_error + nat response)"
    by (simp add: fetch_fails_def)
  show ?thesis
    using h fetch_error_path_keeps_user_clears_loading
      [of "Inr (Response 200 (Inr JNull))"
          "fetch_effect (fetch_init\<lparr>fs_user := JStr (js ''Ann'') :: nat json\<rparr>)"]
    by (simp add: fetch_effect_def fetch_init_def)
qed

text \<open>
  C3, evaluated where it fails: the identifier of a new record is the clock reading and
  nothing compares it with the identifiers in the list. Two adds that read the same
  clock value leave two records with one identifier, and removing by that identifier
  then takes both out: the length drops by 2. This holds for the todo list of StateDemo
  and for the items of KeyDemo alike.
\<close>

theorem add_same_clock_reading_duplicates_id:
  "map todo_id (todos (sd_run [SetNewTodo (js ''a''), AddTodo 1700000000000,
      SetNewTodo (js ''b''), AddTodo 1700000000000] sd_init)) =
     [1, 2, 1700000000000, 1700000000000] \<and>
   map todo_id (todos (sd_run [SetNewTodo (js ''a''), AddTodo 1700000000000,
      SetNewTodo (js ''b''), AddTodo 1700000000000, DeleteTodo 1700000000000] sd_init)) =
     [1, 2] \<and>
   map item_id (addItem 1700000000000 h2 (addItem 1700000000000 h1 kd_init)) =
     [1, 2, 3, 1700000000000, 1700000000000] \<and>
   map item_id (removeItem 1700000000000
      (addItem 1700000000000 h2 (addItem 1700000000000 h1 kd_init))) = [1, 2, 3]"
  by (simp add: sd_run_def sd_init_def setNewTodo_def addTodo_def deleteTodo_def js_def
      trim_def isWhiteSpace_def addItem_def removeItem_def kd_init_def)

text \<open>
  C4: from the initial count 0, after any run of events in which the counter is touched
  only by the increment and the decrement handler, in any interleaving and with any
  other events of the component in between, the count shown is the number of increments
  minus the number of decrements.
\<close>

theorem counter_shows_increments_minus_decrements:
  "ResetCount \<notin> set evs \<Longrightarrow> IncrementByTen \<notin> set evs \<Longrightarrow>
   shown_count (sd_run evs sd_init) =
     int (count_list evs IncrementCount) - int (count_list evs DecrementCount)"
proof (induction evs rule: rev_induct)
  case Nil
  show ?case by (simp add: sd_run_def sd_init_def shown_count_def)
next
  case (snoc e evs)
  then show ?case
    by (cases e)
      (simp_all add: sd_run_snoc shown_count_def incrementCount_def decrementCount_def
        handleTextChange_def toggleSwitch_def updateUserName_def updateUserAge_def
        setNewTodo_def addTodo_def toggleTodo_def deleteTodo_def)
qed

theorem counter_shows_increments_minus_decrements_witness:
  "ResetCount \<notin>
     set [IncrementCount, ToggleSwitch, DecrementCount, IncrementCount, IncrementCount] \<and>
   IncrementByTen \<notin>
     set [IncrementCount, ToggleSwitch, DecrementCount, IncrementCount, IncrementCount] \<and>
   shown_count
     (sd_run [IncrementCount, ToggleSwitch, DecrementCount, IncrementCount, IncrementCount]
        sd_init) = 2"
  using counter_shows_increments_minus_decrements
    [of "[IncrementCount, ToggleSwitch, DecrementCount, IncrementCount, IncrementCount]"]
  by simp

text \<open>
  C5: the character count shown is the length of the current text: after a text-change
  event it is the length of the value of that event, 0 for the empty string; it is 0
  initially; and after any run of events it is the length of the text held then.
\<close>

theorem character_count_is_text_length:
  "shown_character_count (sd_run (evs @ [HandleTextChange v]) s) = length v \<and>
   shown_character_count (sd_run (evs @ [HandleTextChange []]) s) = 0 \<and>
   shown_character_count sd_init = 0 \<and>
   shown_character_count (sd_run evs s) = length (text_value (sd_run evs s))"
  by (simp add: sd_run_snoc handleTextChange_def shown_character_count_def sd_init_def)


text \<open>
  C7: \<open>updateCity\<close> sets the city and leaves name, email, street, zip code and the
  preferences as they were; \<open>toggleNotifications\<close> inverts the notifications flag and
  leaves name, email, the address and the theme as they were.
\<close>

theorem nested_update_keeps_siblings:
  "co_name (updateCity v u) = co_name u \<and>
   co_email (updateCity v u) = co_email u \<and>
   street (co_address (updateCity v u)) = street (co_address u) \<and>
   zipCode (co_address (updateCity v u)) = zipCode (co_address u) \<and>
   co_preferences (updateCity v u) = co_preferences u \<and>
   city (co_address (updateCity v u)) = v \<and>
   co_name (toggleNotifications u) = co_name u \<and>
   co_email (toggleNotifications u) = co_email u \<and>
   co_address (toggleNotifications u) = co_address u \<and>
   theme (co_preferences (toggleNotifications u)) = theme (co_preferences u) \<and>
   notifications (co_preferences (toggleNotifications u)) =
     (\<not> notifications (co_preferences u))"
  by (simp add: updateCity_def toggleNotifications_def)

text \<open>
  C8: toggling by an identifier keeps the length and the order of the list; at every
  position the identifier and the text are kept, and the completion flag is inverted
  where the identifier is the given one and kept elsewhere; nothing else of the
  component state changes.
\<close>

theorem toggleTodo_flips_only_matching:
  "length (todos (toggleTodo i s)) = length (todos s) \<and>
   (\<forall>j < length (todos s).
      todo_id (todos (toggleTodo i s) ! j) = todo_id (todos s ! j) \<and>
      todo_text (todos (toggleTodo i s) ! j) = todo_text (todos s ! j) \<and>
      completed (todos (toggleTodo i s) ! j) =
        (if todo_id (todos s ! j) = i then \<not> completed (todos s ! j)
         else completed (todos s ! j))) \<and>
   toggleTodo i s = s\<lparr>todos := todos (toggleTodo i s)\<rparr>"
  by (simp add: toggleTodo_def)

theorem toggleTodo_flips_only_matching_witness:
  "(1::nat) < length (todos sd_init) \<and>
   todo_id (todos sd_init ! 1) = 2 \<and>
   \<not> completed (todos sd_init ! 1) \<and>
   completed (todos (toggleTodo 2 sd_init) ! 1) \<and>
   completed (todos (toggleTodo 2 sd_init) ! 0) = completed (todos sd_init ! 0) \<and>
   length (todos (toggleTodo 2 sd_init)) = 2"
  using toggleTodo_flips_only_matching [of 2 sd_init] by (simp add: sd_init_def)

text \<open>
  C9: in both todo components, the add action on an input that is empty or holds only
  whitespace returns the state unchanged: nothing is appended and the input is not
  cleared.
\<close>

theorem addTodo_blank_input_unchanged:
  "((\<forall>c\<in>set (newTodo s). isWhiteSpace c) \<longrightarrow> addTodo now s = s) \<and>
   ((\<forall>c\<in>set (cp_input t). isWhiteSpace c) \<longrightarrow> cp_addTodo now t = t)"
  by (simp add: addTodo_def cp_addTodo_def trim_empty_iff)

theorem addTodo_blank_input_unchanged_witness:
  "list_all isWhiteSpace (newTodo (setNewTodo (js ''  '') sd_init)) \<and>
   addTodo 1700000000000 (setNewTodo (js ''  '') sd_init) = setNewTodo (js ''  '') sd_init \<and>
   list_all isWhiteSpace (cp_input (cp_init\<lparr>cp_input := [0x3000, 0x9]\<rparr>)) \<and>
   cp_addTodo 1700000000000 (cp_init\<lparr>cp_input := [0x3000, 0x9]\<rparr>) =
     cp_init\<lparr>cp_input := [0x3000, 0x9]\<rparr>"
  using addTodo_blank_input_unchanged
    [of "setNewTodo (js ''  '') sd_init" 1700000000000 "cp_init\<lparr>cp_input := [0x3000, 0x9]\<rparr>"]
  by (simp add: setNewTodo_def js_def isWhiteSpace_def)

text \<open>
  C10, evaluated where it fails: \<open>startTimer\<close> tests the \<open>isRunning\<close> its render
  captured. Two start events handled before the component renders again both see
  \<open>false\<close>: after the first the timer is running and the ref holds handle 1, the second
  schedules handle 2 beside it and overwrites the ref. Two intervals are then active,
  and handle 1 is out of reach: neither stop nor the cleanup on unmount clears it.
\<close>

theorem startTimer_twice_in_one_render_two_intervals:
  "isRunning (timer_run [StartTimer] timer_init) \<and>
   intervalRef (timer_run [StartTimer] timer_init) = Some 1 \<and>
   active (timer_run [StartTimer] timer_init) = {1} \<and>
   intervalRef (timer_run [StartTimer, StartTimer] timer_init) = Some 2 \<and>
   active (timer_run [StartTimer, StartTimer] timer_init) = {1, 2} \<and>
   card (active (timer_run [StartTimer, StartTimer] timer_init)) = 2 \<and>
   active (timer_run [StartTimer, StartTimer, Render, StopTimer, Render] timer_init) = {1} \<and>
   active (timer_unmount
     (timer_run [StartTimer, StartTimer, Render, StopTimer, Render] timer_init)) = {1}"
  by (auto simp: timer_run_def timer_init_def startTimer_def stopTimer_def timer_render_def
      timer_unmount_def clearInterval_def numeral_2_eq_2)

end
